theory Spec2Isabelle
  imports Complex_Main "HOL-Library.Product_Lexorder"
begin

section \<open>Data\<close>

text \<open>
  The notebooks read \<^verbatim>\<open>cleaned_movie_ratings.csv\<close> into a pandas DataFrame \<open>df\<close>. A
  DataFrame is modelled as the list of its rows, in file order, with the columns the code
  reads. Ratings and scores are Python floats; they are modelled as real numbers, so
  rounding error, infinities and NaN produced by arithmetic are outside the model. A
  missing cell (pandas' NaN in \<open>vote_average\<close>) is \<open>None\<close>.
\<close>

record row =
  userId :: int
  movieId :: int
  rating :: real
  title :: string
  genres :: string
  vote_average :: "real option"

datatype error = ValueError | IndexError

text \<open>
  The Surprise library's prediction record (\<open>uid\<close>, \<open>iid\<close>, \<open>r_ui\<close>, \<open>est\<close>); the code
  reads \<open>pred.iid\<close>, \<open>pred.est\<close> and \<open>pred.r_ui\<close>. \<open>r_ui\<close> is \<open>None\<close> when no true
  rating was passed.
\<close>

record prediction =
  uid :: int
  iid :: int
  r_ui :: "real option"
  est :: real

section \<open>Python and pandas primitives used by the notebooks\<close>

text \<open>
  \<open>Series.unique()\<close> and \<open>DataFrame.drop_duplicates(subset=...)\<close> keep the first
  occurrence of every key, in order of appearance.
\<close>

fun drop_duplicates_acc :: "('a \<Rightarrow> 'k) \<Rightarrow> 'k list \<Rightarrow> 'a list \<Rightarrow> 'a list" where
  "drop_duplicates_acc key seen [] = []"
| "drop_duplicates_acc key seen (x # xs) =
     (if key x \<in> set seen then drop_duplicates_acc key seen xs
      else x # drop_duplicates_acc key (key x # seen) xs)"

definition drop_duplicates :: "('a \<Rightarrow> 'k) \<Rightarrow> 'a list \<Rightarrow> 'a list" where
  "drop_duplicates key xs = drop_duplicates_acc key [] xs"

definition unique :: "'a list \<Rightarrow> 'a list" where
  "unique xs = drop_duplicates (\<lambda>x. x) xs"

text \<open>The slice \<open>xs[:n]\<close> (and \<open>DataFrame.head(n)\<close>): a negative \<open>n\<close> drops the last \<open>-n\<close> elements.\<close>

definition slice_to :: "int \<Rightarrow> 'a list \<Rightarrow> 'a list" where
  "slice_to n xs = (if 0 \<le> n then take (nat n) xs else take (length xs - nat (- n)) xs)"

text \<open>
  \<open>sorted(xs, key=k, reverse=True)\<close> is stable: elements with equal keys keep their order.
  A stable ascending sort on the negated key does the same.
\<close>

definition sorted_reverse :: "('a \<Rightarrow> real) \<Rightarrow> 'a list \<Rightarrow> 'a list" where
  "sorted_reverse k xs = sort_key (\<lambda>x. - k x) xs"

text \<open>
  \<open>Series.to_dict()\<close> on (key, value) rows: a later row with the same key overwrites an
  earlier one. \<open>d.get(k, default)\<close> reads with a default.
\<close>

definition to_dict :: "('k \<times> 'v) list \<Rightarrow> ('k \<rightharpoonup> 'v)" where
  "to_dict kvs = map_of (rev kvs)"

definition dict_get :: "('k \<rightharpoonup> 'v) \<Rightarrow> 'k \<Rightarrow> 'v \<Rightarrow> 'v" where
  "dict_get d k dflt = (case d k of None \<Rightarrow> dflt | Some v \<Rightarrow> v)"

text \<open>
  \<open>round(pred.est, 2)\<close>: \<open>pred.est\<close> is a numpy float, which rounds as
  \<open>rint(x * 10 ^ ndigits) / 10 ^ ndigits\<close> in floating-point arithmetic, \<open>rint\<close> taking
  ties to the even neighbour. The rounding errors of the product and of the quotient are
  outside a model over the reals, so the function that rounds a score to two digits is a
  parameter \<open>round2\<close> of \<open>get_top_n_recommendations\<close>. \<open>py_round\<close> is the same
  computation carried out exactly; it is monotone, as the floating-point one is.
\<close>

definition round_half_even :: "real \<Rightarrow> int" where
  "round_half_even x =
     (let f = \<lfloor>x\<rfloor>; d = x - of_int f
      in if d < 1 / 2 then f else if 1 / 2 < d then f + 1 else if even f then f else f + 1)"

definition py_round :: "real \<Rightarrow> nat \<Rightarrow> real" where
  "py_round x ndigits = of_int (round_half_even (x * 10 ^ ndigits)) / 10 ^ ndigits"

section \<open>Collaborative.ipynb: top-N recommendations\<close>

text \<open>
  Modelled from the spec: \<open>model.predict(user_id, movie_id)\<close> is a method of the Surprise
  library, whose source is not part of the repository. The model's estimate is a
  parameter \<open>model :: int \<Rightarrow> int \<Rightarrow> real\<close> of everything below; the result of the call is
  the spec's prediction record: the user id and the item id of the call and the predicted
  value (the code reads \<open>pred.iid\<close> and \<open>pred.est\<close>).
\<close>

definition predict :: "(int \<Rightarrow> int \<Rightarrow> real) \<Rightarrow> int \<Rightarrow> int \<Rightarrow> prediction" where
  "predict model user_id movie_id =
     \<lparr>uid = user_id, iid = movie_id, r_ui = None, est = model user_id movie_id\<rparr>"

text \<open>
  \<^verbatim>\<open>
  def get_top_n_recommendations(user_id, df, model, n=10):
      rated_movies = df[df['userId'] == user_id]['movieId'].tolist()
      all_movies = df['movieId'].unique()
      to_predict = [m for m in all_movies if m not in rated_movies]
      predictions = [model.predict(user_id, movie_id) for movie_id in to_predict]
      top_preds = sorted(predictions, key=lambda x: x.est, reverse=True)[:n]
      movie_map = df[['movieId', 'title']].drop_duplicates().set_index('movieId')['title'].to_dict()
      return [(movie_map.get(pred.iid, 'Unknown'), round(pred.est, 2)) for pred in top_preds]
  \<close>
\<close>

definition rated_movies :: "int \<Rightarrow> row list \<Rightarrow> int list" where
  "rated_movies user_id df = map movieId (filter (\<lambda>r. userId r = user_id) df)"

definition to_predict :: "int \<Rightarrow> row list \<Rightarrow> int list" where
  "to_predict user_id df =
     filter (\<lambda>m. m \<notin> set (rated_movies user_id df)) (unique (map movieId df))"

definition top_preds :: "int \<Rightarrow> row list \<Rightarrow> (int \<Rightarrow> int \<Rightarrow> real) \<Rightarrow> int \<Rightarrow> prediction list" where
  "top_preds user_id df model n =
     slice_to n (sorted_reverse est (map (predict model user_id) (to_predict user_id df)))"

definition movie_map :: "row list \<Rightarrow> (int \<rightharpoonup> string)" where
  "movie_map df = to_dict (unique (map (\<lambda>r. (movieId r, title r)) df))"

definition get_top_n_recommendations ::
  "(real \<Rightarrow> real) \<Rightarrow> int \<Rightarrow> row list \<Rightarrow> (int \<Rightarrow> int \<Rightarrow> real) \<Rightarrow> int \<Rightarrow> (string \<times> real) list" where
  "get_top_n_recommendations round2 user_id df model n =
     map (\<lambda>pred. (dict_get (movie_map df) (iid pred) ''Unknown'', round2 (est pred)))
       (top_preds user_id df model n)"

section \<open>Collaborative.ipynb: evaluation on the test set\<close>

text \<open>
  Modelled from the spec: \<open>svd.test(testset)\<close> is a routine of the Surprise library, whose
  source is not part of the repository. It returns one prediction per test rating, in
  order, each carrying the true rating (the spec: unknown entities are scored by the
  model's fallback, not excluded).
\<close>

definition test :: "(int \<Rightarrow> int \<Rightarrow> real) \<Rightarrow> (int \<times> int \<times> real) list \<Rightarrow> prediction list" where
  "test model testset =
     map (\<lambda>(u, i, r). \<lparr>uid = u, iid = i, r_ui = Some r, est = model u i\<rparr>) testset"

text \<open>
  Modelled from the spec: \<open>mean_squared_error\<close> and \<open>mean_absolute_error\<close> are routines of
  scikit-learn, whose source is not part of the repository (the spec: rmse is the square
  root of the mean squared difference, mae the mean absolute difference). With
  \<open>squared=False\<close> the first returns the root. Both refuse an empty input and inputs of
  different lengths.
\<close>

definition mean_squared_error :: "real list \<Rightarrow> real list \<Rightarrow> bool \<Rightarrow> error + real" where
  "mean_squared_error y_true y_pred squared =
     (if length y_true \<noteq> length y_pred \<or> y_true = [] then Inl ValueError
      else let mse = (\<Sum>(t, p) \<leftarrow> zip y_true y_pred. (t - p)\<^sup>2) / real (length y_true)
           in Inr (if squared then mse else sqrt mse))"

definition mean_absolute_error :: "real list \<Rightarrow> real list \<Rightarrow> error + real" where
  "mean_absolute_error y_true y_pred =
     (if length y_true \<noteq> length y_pred \<or> y_true = [] then Inl ValueError
      else Inr ((\<Sum>(t, p) \<leftarrow> zip y_true y_pred. \<bar>t - p\<bar>) / real (length y_true)))"

text \<open>
  Modelled from the spec: \<open>accuracy_score\<close>, \<open>precision_score\<close>, \<open>recall_score\<close> and
  \<open>f1_score\<close> are routines of scikit-learn, whose source is not part of the repository
  (the spec: the standard metrics of the confusion matrix; Hybrid.ipynb describes them:
  precision is the share of predicted likes that were liked, recall the share of actual
  likes that were found, F1 the harmonic mean of the two). The calls pass binary labels
  and no \<open>zero_division\<close> argument, so a zero denominator gives the score 0.
  The notebook reaches them with non-empty lists only: \<open>mean_squared_error\<close> has raised
  before on an empty test set.
\<close>

definition true_positives :: "nat list \<Rightarrow> nat list \<Rightarrow> nat" where
  "true_positives y_true y_pred = length (filter (\<lambda>(t, p). t = 1 \<and> p = 1) (zip y_true y_pred))"

definition false_positives :: "nat list \<Rightarrow> nat list \<Rightarrow> nat" where
  "false_positives y_true y_pred = length (filter (\<lambda>(t, p). t \<noteq> 1 \<and> p = 1) (zip y_true y_pred))"

definition false_negatives :: "nat list \<Rightarrow> nat list \<Rightarrow> nat" where
  "false_negatives y_true y_pred = length (filter (\<lambda>(t, p). t = 1 \<and> p \<noteq> 1) (zip y_true y_pred))"

definition accuracy_score :: "nat list \<Rightarrow> nat list \<Rightarrow> real" where
  "accuracy_score y_true y_pred =
     real (length (filter (\<lambda>(t, p). t = p) (zip y_true y_pred))) / real (length y_true)"

definition precision_score :: "nat list \<Rightarrow> nat list \<Rightarrow> real" where
  "precision_score y_true y_pred =
     (let tp = true_positives y_true y_pred; fp = false_positives y_true y_pred
      in if tp + fp = 0 then 0 else real tp / real (tp + fp))"

definition recall_score :: "nat list \<Rightarrow> nat list \<Rightarrow> real" where
  "recall_score y_true y_pred =
     (let tp = true_positives y_true y_pred; fn = false_negatives y_true y_pred
      in if tp + fn = 0 then 0 else real tp / real (tp + fn))"

definition f1_score :: "nat list \<Rightarrow> nat list \<Rightarrow> real" where
  "f1_score y_true y_pred =
     (let p = precision_score y_true y_pred; r = recall_score y_true y_pred
      in if p + r = 0 then 0 else 2 * p * r / (p + r))"

text \<open>
  The evaluation cell, as a function of \<open>predictions = svd.test(testset)\<close>:
  \<^verbatim>\<open>
  y_true = [pred.r_ui for pred in predictions]
  y_pred = [pred.est for pred in predictions]
  rmse = mean_squared_error(y_true, y_pred, squared=False)
  mae = mean_absolute_error(y_true, y_pred)
  threshold = 3.5
  y_true_bin = [1 if r >= threshold else 0 for r in y_true]
  y_pred_bin = [1 if r >= threshold else 0 for r in y_pred]
  accuracy_val = accuracy_score(y_true_bin, y_pred_bin)
  precision_val = precision_score(y_true_bin, y_pred_bin)
  recall_val = recall_score(y_true_bin, y_pred_bin)
  f1_val = f1_score(y_true_bin, y_pred_bin)
  \<close>
  A prediction without a true rating (\<open>r_ui\<close> is \<open>None\<close>) cannot be scored: the metric
  routine raises.
\<close>

definition binarize :: "real \<Rightarrow> real list \<Rightarrow> nat list" where
  "binarize threshold ys = map (\<lambda>r. if r \<ge> threshold then 1 else 0) ys"

record metrics =
  rmse :: real
  mae :: real
  accuracy_val :: real
  precision_val :: real
  recall_val :: real
  f1_val :: real

definition classification :: "real \<Rightarrow> real \<Rightarrow> real list \<Rightarrow> real list \<Rightarrow> metrics" where
  "classification rmse_v mae_v y_true y_pred =
     (let threshold = 7 / 2;
          y_true_bin = binarize threshold y_true;
          y_pred_bin = binarize threshold y_pred
      in \<lparr>rmse = rmse_v, mae = mae_v,
          accuracy_val = accuracy_score y_true_bin y_pred_bin,
          precision_val = precision_score y_true_bin y_pred_bin,
          recall_val = recall_score y_true_bin y_pred_bin,
          f1_val = f1_score y_true_bin y_pred_bin\<rparr>)"

definition evaluation_cell :: "prediction list \<Rightarrow> error + metrics" where
  "evaluation_cell predictions =
     (case those (map r_ui predictions) of
        None \<Rightarrow> Inl ValueError
      | Some y_true \<Rightarrow>
          (let y_pred = map est predictions
           in case mean_squared_error y_true y_pred False of
                Inl e \<Rightarrow> Inl e
              | Inr rmse_v \<Rightarrow>
                  (case mean_absolute_error y_true y_pred of
                     Inl e \<Rightarrow> Inl e
                   | Inr mae_v \<Rightarrow> Inr (classification rmse_v mae_v y_true y_pred))))"

section \<open>Hybrid.ipynb: evaluation of the hybrid score\<close>

text \<open>
  \<^verbatim>\<open>
  df = pd.read_csv(...).dropna(subset=["userId", "movieId", "rating", "vote_average"])
  ...
  predictions = svd.test(testset)
  pred_df = pd.DataFrame([(p.uid, p.iid, p.r_ui, p.est) for p in predictions],
                         columns=["userId", "movieId", "actual", "svd_pred"])
  vote_avg = df.drop_duplicates("movieId").set_index("movieId")["vote_average"]
  pred_df["vote_average"] = pred_df["movieId"].map(vote_avg)
  pred_df.dropna(inplace=True)
  pred_df["hybrid_pred"] = (pred_df["svd_pred"] + pred_df["vote_average"]) / 2
  \<close>
  Of the four columns named at load time only \<open>vote_average\<close> can be missing in the row
  type, so the load-time \<open>dropna\<close> filters on it.
\<close>

definition load_hybrid :: "row list \<Rightarrow> row list" where
  "load_hybrid raw = filter (\<lambda>r. vote_average r \<noteq> None) raw"

definition vote_avg :: "row list \<Rightarrow> (int \<rightharpoonup> real option)" where
  "vote_avg df = map_of (map (\<lambda>r. (movieId r, vote_average r)) (drop_duplicates movieId df))"

record pred_row =
  p_userId :: int
  p_movieId :: int
  actual :: "real option"
  svd_pred :: real
  p_vote_average :: "real option"

text \<open>\<open>Series.map\<close> of a lookup table gives a missing cell for an absent key.\<close>

definition pred_df :: "row list \<Rightarrow> prediction list \<Rightarrow> pred_row list" where
  "pred_df df predictions =
     map (\<lambda>p. \<lparr>p_userId = uid p, p_movieId = iid p, actual = r_ui p, svd_pred = est p,
               p_vote_average = (case vote_avg df (iid p) of None \<Rightarrow> None | Some v \<Rightarrow> v)\<rparr>)
       predictions"

text \<open>
  After \<open>dropna\<close> every cell of a row is present; \<open>hybrid_pred\<close> is then computed for the
  rows that are left.
\<close>

record hybrid_row =
  h_userId :: int
  h_movieId :: int
  h_actual :: real
  h_svd_pred :: real
  h_vote_average :: real
  hybrid_pred :: real

definition dropna_hybrid :: "pred_row list \<Rightarrow> hybrid_row list" where
  "dropna_hybrid rows =
     List.map_filter
       (\<lambda>r. case (actual r, p_vote_average r) of
               (Some a, Some v) \<Rightarrow>
                 Some \<lparr>h_userId = p_userId r, h_movieId = p_movieId r, h_actual = a,
                       h_svd_pred = svd_pred r, h_vote_average = v,
                       hybrid_pred = (svd_pred r + v) / 2\<rparr>
             | _ \<Rightarrow> None)
       rows"

definition hybrid_rows :: "row list \<Rightarrow> (int \<Rightarrow> int \<Rightarrow> real) \<Rightarrow> (int \<times> int \<times> real) list \<Rightarrow> hybrid_row list" where
  "hybrid_rows df model testset = dropna_hybrid (pred_df df (test model testset))"

text \<open>
  The rest of the cell scores \<open>hybrid_pred\<close> against \<open>actual\<close> with the same metric
  routines and the same threshold 3.5 as the collaborative notebook.
\<close>

definition hybrid_evaluation_cell ::
  "row list \<Rightarrow> (int \<Rightarrow> int \<Rightarrow> real) \<Rightarrow> (int \<times> int \<times> real) list \<Rightarrow> error + metrics" where
  "hybrid_evaluation_cell df model testset =
     (let rows = hybrid_rows df model testset;
          y_true = map h_actual rows;
          y_pred = map hybrid_pred rows
      in case mean_squared_error y_true y_pred False of
           Inl e \<Rightarrow> Inl e
         | Inr rmse_v \<Rightarrow>
             (case mean_absolute_error y_true y_pred of
                Inl e \<Rightarrow> Inl e
              | Inr mae_v \<Rightarrow> Inr (classification rmse_v mae_v y_true y_pred)))"

section \<open>Hybrid.ipynb: the hybrid recommender of app4.py\<close>

text \<open>
  \<^verbatim>\<open>
  def recommend_hybrid(movie_title, user_id, n=10):
      if movie_title not in title_to_index:
          return pd.DataFrame({"Error": [f"Movie '{movie_title}' not found in dataset."]})
      idx = title_to_index[movie_title]
      distances, indices = knn_model.kneighbors(tfidf_matrix[idx], n_neighbors=200)
      movie_indices = indices[0][1:]
      recommendations = df.iloc[movie_indices][["movieId", "title", "vote_average", "genres"]]
      recommendations = recommendations.drop_duplicates(subset="title")
      recommendations["svd_score"] = recommendations["movieId"].apply(
          lambda x: svd_model.predict(user_id, x).est)
      recommendations["hybrid_score"] = (recommendations["vote_average"] + recommendations["svd_score"]) / 2
      return recommendations.sort_values(by="hybrid_score", ascending=False).head(n)
  \<close>
  The nearest-neighbour search is a library call on a fitted index: \<open>kneighbors idx\<close> is
  a parameter, standing for \<open>indices[0]\<close> of the query on row \<open>idx\<close>. \<open>idx\<close> is the first
  row with the title. A row index that \<open>df.iloc\<close> cannot serve raises.
\<close>

record recommendation =
  r_movieId :: int
  r_title :: string
  r_vote_average :: "real option"
  r_genres :: string
  svd_score :: real
  hybrid_score :: "real option"

datatype frame = ErrorFrame string | Recommendations "recommendation list"

definition iloc :: "row list \<Rightarrow> nat list \<Rightarrow> error + row list" where
  "iloc df js = (if list_all (\<lambda>j. j < length df) js then Inr (map (\<lambda>j. df ! j) js) else Inl IndexError)"

definition add_scores :: "(int \<Rightarrow> int \<Rightarrow> real) \<Rightarrow> int \<Rightarrow> row \<Rightarrow> recommendation" where
  "add_scores model user_id r =
     (let s = est (predict model user_id (movieId r))
      in \<lparr>r_movieId = movieId r, r_title = title r, r_vote_average = vote_average r,
          r_genres = genres r, svd_score = s,
          hybrid_score = map_option (\<lambda>v. (v + s) / 2) (vote_average r)\<rparr>)"

text \<open>
  \<open>sort_values(by="hybrid_score", ascending=False)\<close>: larger scores first, rows without
  a score last. pandas does not promise the order of rows with equal scores; the model
  keeps them in their previous order.
\<close>

definition sort_values_desc :: "recommendation list \<Rightarrow> recommendation list" where
  "sort_values_desc rows =
     sort_key (\<lambda>r. case hybrid_score r of None \<Rightarrow> (True, 0) | Some v \<Rightarrow> (False, - v)) rows"

definition recommend_hybrid ::
  "row list \<Rightarrow> (nat \<Rightarrow> nat list) \<Rightarrow> (int \<Rightarrow> int \<Rightarrow> real) \<Rightarrow> string \<Rightarrow> int \<Rightarrow> int \<Rightarrow> error + frame" where
  "recommend_hybrid df kneighbors model movie_title user_id n =
     (if movie_title \<notin> set (map title df)
      then Inr (ErrorFrame (''Movie '' @ [CHR 0x27] @ movie_title @ [CHR 0x27] @ '' not found in dataset.''))
      else
        let idx = length (takeWhile (\<lambda>r. title r \<noteq> movie_title) df);
            movie_indices = tl (kneighbors idx)
        in case iloc df movie_indices of
             Inl e \<Rightarrow> Inl e
           | Inr rows \<Rightarrow>
               Inr (Recommendations
                 (slice_to n (sort_values_desc
                    (map (add_scores model user_id) (drop_duplicates title rows))))))"

section \<open>The latent-factor model's prediction\<close>

text \<open>
  Modelled from the spec: \<open>svd.predict\<close> is a method of the Surprise library, whose source
  is not part of the repository; the notebooks only call it, on a model built with
  \<open>Reader(rating_scale=(0.5, 5.0))\<close>. The spec (section 4.2): the prediction is
  \<open>mu + b_u[user] + b_i[item] + dot(P[user], Q[item])\<close>, clipped to the rating scale; an
  unknown user has bias 0 and the zero vector as factors, likewise an unknown item.
  \<open>indexOf\<close> maps an id to its dense index, or to \<open>None\<close> when the id is unknown; by
  the spec's invariant every dense index lies within the bias vectors and the factor
  matrices, and all factor vectors have the length \<open>k\<close>.
\<close>

record latent_factor_model =
  indexOf_user :: "int \<rightharpoonup> nat"
  indexOf_item :: "int \<rightharpoonup> nat"
  mu :: real
  b_u :: "real list"
  b_i :: "real list"
  P_factors :: "real list list"
  Q_factors :: "real list list"
  k_dim :: nat
  rating_scale :: "real \<times> real"

definition dot :: "real list \<Rightarrow> real list \<Rightarrow> real" where
  "dot xs ys = (\<Sum>(x, y) \<leftarrow> zip xs ys. x * y)"

definition clip :: "real \<times> real \<Rightarrow> real \<Rightarrow> real" where
  "clip scale x = (case scale of (lower, upper) \<Rightarrow> max lower (min upper x))"

definition user_bias :: "latent_factor_model \<Rightarrow> int \<Rightarrow> real" where
  "user_bias m user = (case indexOf_user m user of None \<Rightarrow> 0 | Some a \<Rightarrow> b_u m ! a)"

definition item_bias :: "latent_factor_model \<Rightarrow> int \<Rightarrow> real" where
  "item_bias m item = (case indexOf_item m item of None \<Rightarrow> 0 | Some b \<Rightarrow> b_i m ! b)"

definition user_factors :: "latent_factor_model \<Rightarrow> int \<Rightarrow> real list" where
  "user_factors m user =
     (case indexOf_user m user of None \<Rightarrow> replicate (k_dim m) 0 | Some a \<Rightarrow> P_factors m ! a)"

definition item_factors :: "latent_factor_model \<Rightarrow> int \<Rightarrow> real list" where
  "item_factors m item =
     (case indexOf_item m item of None \<Rightarrow> replicate (k_dim m) 0 | Some b \<Rightarrow> Q_factors m ! b)"

definition lfm_predict :: "latent_factor_model \<Rightarrow> int \<Rightarrow> int \<Rightarrow> real" where
  "lfm_predict m user item =
     clip (rating_scale m)
       (mu m + user_bias m user + item_bias m item + dot (user_factors m user) (item_factors m item))"

text \<open>The rating scale both notebooks configure: \<open>Reader(rating_scale=(0.5, 5.0))\<close>.\<close>

definition notebook_scale :: "real \<times> real" where
  "notebook_scale = (1 / 2, 5)"

section \<open>Properties of the primitives\<close>

lemma drop_duplicates_acc_keys:
  "key ` set (drop_duplicates_acc key seen xs) = key ` set xs - set seen"
  by (induction xs arbitrary: seen) auto

lemma set_drop_duplicates_acc: "set (drop_duplicates_acc key seen xs) \<subseteq> set xs"
  by (induction xs arbitrary: seen) auto

lemma set_drop_duplicates: "set (drop_duplicates key xs) \<subseteq> set xs"
  by (simp add: drop_duplicates_def set_drop_duplicates_acc)

lemma set_unique: "set (unique xs) = set xs"
  using drop_duplicates_acc_keys [of "\<lambda>x. x" "[]" xs]
  by (simp add: unique_def drop_duplicates_def)

lemma distinct_drop_duplicates_acc:
  "distinct (map key (drop_duplicates_acc key seen xs))"
proof (induction xs arbitrary: seen)
  case Nil
  show ?case by simp
next
  case (Cons x xs)
  have "key x \<notin> key ` set (drop_duplicates_acc key (key x # seen) xs)"
    by (simp add: drop_duplicates_acc_keys)
  with Cons show ?case by simp
qed

lemma distinct_unique: "distinct (unique xs)"
  using distinct_drop_duplicates_acc [of "\<lambda>x. x" "[]" xs]
  by (simp add: unique_def drop_duplicates_def)

lemma set_slice_to: "set (slice_to n xs) \<subseteq> set xs"
  by (auto simp: slice_to_def dest: in_set_takeD)

lemma length_slice_to: "0 \<le> n \<Longrightarrow> length (slice_to n xs) \<le> nat n"
  by (simp add: slice_to_def)

lemma sorted_wrt_slice_to: "sorted_wrt R xs \<Longrightarrow> sorted_wrt R (slice_to n xs)"
  by (simp add: slice_to_def sorted_wrt_take)

lemma distinct_slice_to: "distinct xs \<Longrightarrow> distinct (slice_to n xs)"
  by (simp add: slice_to_def)

lemma set_sorted_reverse: "set (sorted_reverse k xs) = set xs"
  by (simp add: sorted_reverse_def)

lemma sorted_sorted_reverse: "sorted_wrt (\<lambda>a b. k b \<le> k a) (sorted_reverse k xs)"
proof -
  have "sorted (map (\<lambda>x. - k x) (sort_key (\<lambda>x. - k x) xs))"
    by (rule sorted_sort_key)
  then show ?thesis
    by (simp add: sorted_reverse_def sorted_map)
qed

lemma round_half_even_mono: "x \<le> y \<Longrightarrow> round_half_even x \<le> round_half_even y"
proof -
  assume xy: "x \<le> y"
  have lo: "\<lfloor>z\<rfloor> \<le> round_half_even z" and hi: "round_half_even z \<le> \<lfloor>z\<rfloor> + 1" for z
    by (simp_all add: round_half_even_def Let_def)
  have fl: "\<lfloor>x\<rfloor> \<le> \<lfloor>y\<rfloor>" using xy by (rule floor_mono)
  show ?thesis
  proof (cases "\<lfloor>x\<rfloor> = \<lfloor>y\<rfloor>")
    case True
    then show ?thesis using xy
      by (auto simp: round_half_even_def Let_def)
  next
    case False
    with fl have "\<lfloor>x\<rfloor> + 1 \<le> \<lfloor>y\<rfloor>" by simp
    with lo [of y] hi [of x] show ?thesis by linarith
  qed
qed

lemma py_round_mono: "x \<le> y \<Longrightarrow> py_round x d \<le> py_round y d"
proof -
  assume "x \<le> y"
  then have "x * 10 ^ d \<le> y * 10 ^ d" by (simp add: mult_right_mono)
  then have "round_half_even (x * 10 ^ d) \<le> round_half_even (y * 10 ^ d)"
    by (rule round_half_even_mono)
  then show ?thesis
    by (simp add: py_round_def divide_right_mono)
qed


section \<open>Properties of the top-N recommendations\<close>

lemma movie_map_title:
  assumes "m \<in> movieId ` set df"
  shows "\<exists>r \<in> set df. movieId r = m \<and> dict_get (movie_map df) m ''Unknown'' = title r"
proof -
  let ?kvs = "rev (unique (map (\<lambda>r. (movieId r, title r)) df))"
  have keys: "fst ` set ?kvs = movieId ` set df"
    by (simp add: set_unique image_image)
  with assms have "map_of ?kvs m \<noteq> None"
    by (simp add: map_of_eq_None_iff)
  then obtain t where t: "map_of ?kvs m = Some t" by blast
  then have "(m, t) \<in> set ?kvs" by (rule map_of_SomeD)
  then have "(m, t) \<in> (\<lambda>r. (movieId r, title r)) ` set df"
    by (simp add: set_unique)
  then obtain r where "r \<in> set df" "movieId r = m" "title r = t" by auto
  with t show ?thesis
    by (auto simp: dict_get_def movie_map_def to_dict_def)
qed

lemma set_to_predict:
  "set (to_predict user_id df) = movieId ` set df - movieId ` {r \<in> set df. userId r = user_id}"
  by (auto simp: to_predict_def rated_movies_def set_unique)

lemma distinct_to_predict: "distinct (to_predict user_id df)"
  by (simp add: to_predict_def distinct_unique)

lemma map_iid_predict: "map iid (map (predict model user_id) ms) = ms"
  by (induction ms) (simp_all add: predict_def)

lemma top_preds_est:
  "p \<in> set (top_preds user_id df model n) \<Longrightarrow> est p = model user_id (iid p)"
proof -
  assume "p \<in> set (top_preds user_id df model n)"
  then have "p \<in> set (map (predict model user_id) (to_predict user_id df))"
    using set_slice_to set_sorted_reverse unfolding top_preds_def by fastforce
  then show ?thesis by (auto simp: predict_def)
qed

lemma top_preds_iid_subset:
  "set (map iid (top_preds user_id df model n)) \<subseteq> set (to_predict user_id df)"
proof -
  have "set (top_preds user_id df model n) \<subseteq> set (map (predict model user_id) (to_predict user_id df))"
    using set_slice_to set_sorted_reverse unfolding top_preds_def by fastforce
  then have "iid ` set (top_preds user_id df model n) \<subseteq> iid ` set (map (predict model user_id) (to_predict user_id df))"
    by (rule image_mono)
  also have "\<dots> = set (map iid (map (predict model user_id) (to_predict user_id df)))"
    by (simp only: set_map)
  finally show ?thesis by (simp only: set_map map_iid_predict)
qed

lemma distinct_top_preds_iid: "distinct (map iid (top_preds user_id df model n))"
proof -
  let ?ps = "map (predict model user_id) (to_predict user_id df)"
  have inj: "inj_on iid (set ?ps)"
    by (auto simp: inj_on_def predict_def)
  have "distinct ?ps"
    by (simp add: distinct_map distinct_to_predict inj_on_def predict_def)
  with inj have "distinct (map iid (sorted_reverse est ?ps))"
    by (simp only: distinct_map sorted_reverse_def distinct_sort set_sort simp_thms)
  then show ?thesis
    by (simp add: top_preds_def slice_to_def take_map [symmetric] distinct_take)
qed

lemma sorted_top_preds:
  "sorted_wrt (\<lambda>a b. est b \<le> est a) (top_preds user_id df model n)"
  by (simp add: top_preds_def sorted_wrt_slice_to sorted_sorted_reverse)

text \<open>
  C10. For a count \<open>n\<close> (\<open>n \<ge> 0\<close>; the default is 10 and the app's slider offers 5 to
  20), \<open>get_top_n_recommendations(user_id, df, model, n)\<close> returns at most \<open>n\<close> pairs.
  They are the pairs of pairwise different movies \<open>ms\<close> of the dataset (movies are
  identified by \<open>movieId\<close>), none of which the user has rated in it, in non-increasing
  order of the model's prediction; each pair holds a title the dataset gives that movie
  and the rounded prediction. When the rounding is monotone, the rounded scores of the
  returned list are non-increasing as well.
\<close>

theorem get_top_n_recommendations_top_n:
  assumes "0 \<le> n"
  shows "\<exists>ms. get_top_n_recommendations round2 user_id df model n =
              map (\<lambda>m. (dict_get (movie_map df) m ''Unknown'', round2 (model user_id m))) ms
          \<and> length ms \<le> nat n
          \<and> distinct ms
          \<and> sorted_wrt (\<lambda>a b. model user_id b \<le> model user_id a) ms
          \<and> set ms \<subseteq> movieId ` set df - movieId ` {r \<in> set df. userId r = user_id}
          \<and> list_all (\<lambda>m. \<exists>r \<in> set df. movieId r = m
                            \<and> dict_get (movie_map df) m ''Unknown'' = title r) ms
          \<and> ((\<forall>x y. x \<le> y \<longrightarrow> round2 x \<le> round2 y) \<longrightarrow>
                sorted_wrt (\<lambda>a b. snd b \<le> snd a)
                  (get_top_n_recommendations round2 user_id df model n))"
proof -
  let ?ps = "top_preds user_id df model n"
  let ?ms = "map iid ?ps"
  have est: "est p = model user_id (iid p)" if "p \<in> set ?ps" for p
    using that by (rule top_preds_est)
  have res: "get_top_n_recommendations round2 user_id df model n =
      map (\<lambda>m. (dict_get (movie_map df) m ''Unknown'', round2 (model user_id m))) ?ms"
    using est by (simp add: get_top_n_recommendations_def)
  have len: "length ?ms \<le> nat n"
    using assms by (simp add: top_preds_def length_slice_to)
  have srt_est: "sorted_wrt (\<lambda>a b. est b \<le> est a) ?ps"
    by (rule sorted_top_preds)
  have srt: "sorted_wrt (\<lambda>a b. model user_id b \<le> model user_id a) ?ms"
    unfolding sorted_wrt_map
    by (rule sorted_wrt_mono_rel [OF _ srt_est]) (simp add: est)
  have sub: "set ?ms \<subseteq> movieId ` set df - movieId ` {r \<in> set df. userId r = user_id}"
    using top_preds_iid_subset [of user_id df model n] by (simp add: set_to_predict)
  have ttl: "list_all (\<lambda>m. \<exists>r \<in> set df. movieId r = m
                            \<and> dict_get (movie_map df) m ''Unknown'' = title r) ?ms"
    unfolding list_all_iff
  proof
    fix m assume "m \<in> set ?ms"
    with sub have "m \<in> movieId ` set df" by blast
    then show "\<exists>r \<in> set df. movieId r = m \<and> dict_get (movie_map df) m ''Unknown'' = title r"
      by (rule movie_map_title)
  qed
  have srt_out: "sorted_wrt (\<lambda>a b. snd b \<le> snd a)
      (get_top_n_recommendations round2 user_id df model n)"
    if "\<forall>x y. x \<le> y \<longrightarrow> round2 x \<le> round2 y"
    unfolding get_top_n_recommendations_def sorted_wrt_map
    by (rule sorted_wrt_mono_rel [OF _ srt_est]) (simp add: that)
  from res len distinct_top_preds_iid srt sub ttl srt_out show ?thesis by blast
qed

lemmas top_n_defs =
  get_top_n_recommendations_def top_preds_def to_predict_def rated_movies_def movie_map_def
  unique_def drop_duplicates_def slice_to_def sorted_reverse_def to_dict_def dict_get_def
  predict_def py_round_def round_half_even_def

theorem get_top_n_recommendations_top_n_witness:
  "(0::int) \<le> 2
   \<and> get_top_n_recommendations (\<lambda>x. py_round x 2) 1
         [\<lparr>userId = 1, movieId = 10, rating = 4, title = ''A'', genres = ''Drama'', vote_average = Some 7\<rparr>,
           \<lparr>userId = 2, movieId = 10, rating = 3, title = ''A'', genres = ''Drama'', vote_average = Some 7\<rparr>,
           \<lparr>userId = 2, movieId = 20, rating = 5, title = ''B'', genres = ''Comedy'', vote_average = Some 6\<rparr>,
           \<lparr>userId = 2, movieId = 30, rating = 2, title = ''C'', genres = ''Crime'', vote_average = None\<rparr>]
         (\<lambda>u i. real_of_int i / 10) 2 = [(''C'', 3), (''B'', 2)]
   \<and> length (get_top_n_recommendations (\<lambda>x. py_round x 2) 1
         [\<lparr>userId = 1, movieId = 10, rating = 4, title = ''A'', genres = ''Drama'', vote_average = Some 7\<rparr>,
           \<lparr>userId = 2, movieId = 10, rating = 3, title = ''A'', genres = ''Drama'', vote_average = Some 7\<rparr>,
           \<lparr>userId = 2, movieId = 20, rating = 5, title = ''B'', genres = ''Comedy'', vote_average = Some 6\<rparr>,
           \<lparr>userId = 2, movieId = 30, rating = 2, title = ''C'', genres = ''Crime'', vote_average = None\<rparr>]
         (\<lambda>u i. real_of_int i / 10) 2) \<le> nat 2
   \<and> sorted_wrt (\<lambda>a b. snd b \<le> snd a) (get_top_n_recommendations (\<lambda>x. py_round x 2) 1
         [\<lparr>userId = 1, movieId = 10, rating = 4, title = ''A'', genres = ''Drama'', vote_average = Some 7\<rparr>,
           \<lparr>userId = 2, movieId = 10, rating = 3, title = ''A'', genres = ''Drama'', vote_average = Some 7\<rparr>,
           \<lparr>userId = 2, movieId = 20, rating = 5, title = ''B'', genres = ''Comedy'', vote_average = Some 6\<rparr>,
           \<lparr>userId = 2, movieId = 30, rating = 2, title = ''C'', genres = ''Crime'', vote_average = None\<rparr>]
         (\<lambda>u i. real_of_int i / 10) 2)"
proof -
  have h: "(0::int) \<le> 2" by simp
  have mono: "\<forall>x y. x \<le> y \<longrightarrow> py_round x 2 \<le> py_round y 2"
    by (simp add: py_round_mono)
  note inst = get_top_n_recommendations_top_n [OF h, of "\<lambda>x. py_round x 2" 1 "[\<lparr>userId = 1, movieId = 10, rating = 4, title = ''A'', genres = ''Drama'', vote_average = Some 7\<rparr>,
           \<lparr>userId = 2, movieId = 10, rating = 3, title = ''A'', genres = ''Drama'', vote_average = Some 7\<rparr>,
           \<lparr>userId = 2, movieId = 20, rating = 5, title = ''B'', genres = ''Comedy'', vote_average = Some 6\<rparr>,
           \<lparr>userId = 2, movieId = 30, rating = 2, title = ''C'', genres = ''Crime'', vote_average = None\<rparr>]" "\<lambda>u i. real_of_int i / 10"]
  from inst have "length (get_top_n_recommendations (\<lambda>x. py_round x 2) 1
         [\<lparr>userId = 1, movieId = 10, rating = 4, title = ''A'', genres = ''Drama'', vote_average = Some 7\<rparr>,
           \<lparr>userId = 2, movieId = 10, rating = 3, title = ''A'', genres = ''Drama'', vote_average = Some 7\<rparr>,
           \<lparr>userId = 2, movieId = 20, rating = 5, title = ''B'', genres = ''Comedy'', vote_average = Some 6\<rparr>,
           \<lparr>userId = 2, movieId = 30, rating = 2, title = ''C'', genres = ''Crime'', vote_average = None\<rparr>]
         (\<lambda>u i. real_of_int i / 10) 2) \<le> nat 2"
    by auto
  moreover from inst mono have "sorted_wrt (\<lambda>a b. snd b \<le> snd a) (get_top_n_recommendations (\<lambda>x. py_round x 2) 1
         [\<lparr>userId = 1, movieId = 10, rating = 4, title = ''A'', genres = ''Drama'', vote_average = Some 7\<rparr>,
           \<lparr>userId = 2, movieId = 10, rating = 3, title = ''A'', genres = ''Drama'', vote_average = Some 7\<rparr>,
           \<lparr>userId = 2, movieId = 20, rating = 5, title = ''B'', genres = ''Comedy'', vote_average = Some 6\<rparr>,
           \<lparr>userId = 2, movieId = 30, rating = 2, title = ''C'', genres = ''Crime'', vote_average = None\<rparr>]
         (\<lambda>u i. real_of_int i / 10) 2)"
    by blast
  moreover have "get_top_n_recommendations (\<lambda>x. py_round x 2) 1
         [\<lparr>userId = 1, movieId = 10, rating = 4, title = ''A'', genres = ''Drama'', vote_average = Some 7\<rparr>,
           \<lparr>userId = 2, movieId = 10, rating = 3, title = ''A'', genres = ''Drama'', vote_average = Some 7\<rparr>,
           \<lparr>userId = 2, movieId = 20, rating = 5, title = ''B'', genres = ''Comedy'', vote_average = Some 6\<rparr>,
           \<lparr>userId = 2, movieId = 30, rating = 2, title = ''C'', genres = ''Crime'', vote_average = None\<rparr>]
         (\<lambda>u i. real_of_int i / 10) 2 = [(''C'', 3), (''B'', 2)]"
    by (simp add: top_n_defs)
  ultimately show ?thesis by simp
qed

section \<open>Properties of the hybrid score\<close>

lemma set_sort_values_desc: "set (sort_values_desc rows) = set rows"
  by (simp add: sort_values_desc_def)

lemma iloc_rows: "iloc df js = Inr rows \<Longrightarrow> set rows \<subseteq> set df"
  by (auto simp: iloc_def list_all_iff split: if_splits)

lemma add_scores_fields:
  "svd_score (add_scores model user_id d) = model user_id (movieId d)"
  "hybrid_score (add_scores model user_id d) =
     map_option (\<lambda>v. (v + model user_id (movieId d)) / 2) (vote_average d)"
  "r_movieId (add_scores model user_id d) = movieId d"
  "r_vote_average (add_scores model user_id d) = vote_average d"
  "r_title (add_scores model user_id d) = title d"
  by (simp_all add: add_scores_def predict_def Let_def)

lemma hybrid_rows_hybrid_pred:
  "h \<in> set (hybrid_rows df model testset) \<Longrightarrow>
     hybrid_pred h = (h_svd_pred h + h_vote_average h) / 2"
  by (auto simp: hybrid_rows_def dropna_hybrid_def List.map_filter_def split: option.splits)

text \<open>
  C9. Every row that \<open>recommend_hybrid\<close> returns carries the model's prediction for its
  movie as \<open>svd_score\<close> and the plain mean \<open>(vote_average + svd_score) / 2\<close> as
  \<open>hybrid_score\<close>, where \<open>vote_average\<close> is the value of a row of the dataset for that
  movie, taken as it stands: neither operand is rescaled. A movie whose \<open>vote_average\<close>
  is missing has a missing hybrid score.
\<close>

theorem recommend_hybrid_score:
  assumes "recommend_hybrid df kneighbors model movie_title user_id n = Inr (Recommendations rows)"
    and "r \<in> set rows"
  shows "svd_score r = model user_id (r_movieId r)
       \<and> hybrid_score r = map_option (\<lambda>v. (v + svd_score r) / 2) (r_vote_average r)
       \<and> (\<exists>d \<in> set df. movieId d = r_movieId r \<and> vote_average d = r_vote_average r
             \<and> title d = r_title r)"
proof -
  from assms(1) obtain picked where
    picked: "iloc df (tl (kneighbors (length (takeWhile (\<lambda>r. title r \<noteq> movie_title) df)))) = Inr picked"
    and rows: "rows = slice_to n (sort_values_desc
                 (map (add_scores model user_id) (drop_duplicates title picked)))"
    by (auto simp: recommend_hybrid_def Let_def split: if_splits sum.splits)
  from assms(2) rows have "r \<in> set (map (add_scores model user_id) (drop_duplicates title picked))"
    using set_slice_to set_sort_values_desc by fastforce
  then obtain d where d: "d \<in> set (drop_duplicates title picked)" and r: "r = add_scores model user_id d"
    by auto
  from d have "d \<in> set df"
    using set_drop_duplicates iloc_rows [OF picked] by fastforce
  with r show ?thesis
    by (auto simp: add_scores_fields)
qed

lemmas hybrid_defs =
  recommend_hybrid_def iloc_def add_scores_def sort_values_desc_def drop_duplicates_def
  slice_to_def predict_def

theorem recommend_hybrid_score_witness:
  "recommend_hybrid
     [\<lparr>userId = 1, movieId = 10, rating = 4, title = ''A'', genres = ''Drama'', vote_average = Some 7\<rparr>,
      \<lparr>userId = 2, movieId = 20, rating = 5, title = ''B'', genres = ''Comedy'', vote_average = Some 6\<rparr>,
      \<lparr>userId = 2, movieId = 30, rating = 2, title = ''C'', genres = ''Crime'', vote_average = None\<rparr>]
     (\<lambda>idx. [0, 2, 1]) (\<lambda>u i. real_of_int i / 10) ''A'' 1 10
   = Inr (Recommendations [\<lparr>r_movieId = 20, r_title = ''B'', r_vote_average = Some 6, r_genres = ''Comedy'',
        svd_score = 2, hybrid_score = Some 4\<rparr>, \<lparr>r_movieId = 30, r_title = ''C'', r_vote_average = None, r_genres = ''Crime'',
        svd_score = 3, hybrid_score = None\<rparr>])
   \<and> svd_score \<lparr>r_movieId = 20, r_title = ''B'', r_vote_average = Some 6, r_genres = ''Comedy'',
        svd_score = 2, hybrid_score = Some 4\<rparr> = (\<lambda>u i. real_of_int i / 10) 1 (r_movieId \<lparr>r_movieId = 20, r_title = ''B'', r_vote_average = Some 6, r_genres = ''Comedy'',
        svd_score = 2, hybrid_score = Some 4\<rparr>)
   \<and> hybrid_score \<lparr>r_movieId = 20, r_title = ''B'', r_vote_average = Some 6, r_genres = ''Comedy'',
        svd_score = 2, hybrid_score = Some 4\<rparr> = map_option (\<lambda>v. (v + svd_score \<lparr>r_movieId = 20, r_title = ''B'', r_vote_average = Some 6, r_genres = ''Comedy'',
        svd_score = 2, hybrid_score = Some 4\<rparr>) / 2) (r_vote_average \<lparr>r_movieId = 20, r_title = ''B'', r_vote_average = Some 6, r_genres = ''Comedy'',
        svd_score = 2, hybrid_score = Some 4\<rparr>)"
proof -
  have run: "recommend_hybrid
     [\<lparr>userId = 1, movieId = 10, rating = 4, title = ''A'', genres = ''Drama'', vote_average = Some 7\<rparr>,
      \<lparr>userId = 2, movieId = 20, rating = 5, title = ''B'', genres = ''Comedy'', vote_average = Some 6\<rparr>,
      \<lparr>userId = 2, movieId = 30, rating = 2, title = ''C'', genres = ''Crime'', vote_average = None\<rparr>]
     (\<lambda>idx. [0, 2, 1]) (\<lambda>u i. real_of_int i / 10) ''A'' 1 10
   = Inr (Recommendations [\<lparr>r_movieId = 20, r_title = ''B'', r_vote_average = Some 6, r_genres = ''Comedy'',
        svd_score = 2, hybrid_score = Some 4\<rparr>, \<lparr>r_movieId = 30, r_title = ''C'', r_vote_average = None, r_genres = ''Crime'',
        svd_score = 3, hybrid_score = None\<rparr>])"
    by (simp add: hybrid_defs)
  have mem: "\<lparr>r_movieId = 20, r_title = ''B'', r_vote_average = Some 6, r_genres = ''Comedy'',
        svd_score = 2, hybrid_score = Some 4\<rparr> \<in> set [\<lparr>r_movieId = 20, r_title = ''B'', r_vote_average = Some 6, r_genres = ''Comedy'',
        svd_score = 2, hybrid_score = Some 4\<rparr>, \<lparr>r_movieId = 30, r_title = ''C'', r_vote_average = None, r_genres = ''Crime'',
        svd_score = 3, hybrid_score = None\<rparr>]"
    by simp
  from recommend_hybrid_score [OF run mem] run show ?thesis
    by blast
qed

section \<open>Properties of the regression metrics\<close>

lemma those_r_ui_test: "those (map r_ui (test model testset)) = Some (map (\<lambda>(u, i, r). r) testset)"
  by (induction testset) (auto simp: test_def)

lemma map_est_test: "map est (test model testset) = map (\<lambda>(u, i, r). model u i) testset"
  by (simp add: test_def case_prod_unfold)

lemma length_test: "length (test model testset) = length testset"
  by (simp add: test_def)

lemma sum_list_zip_map:
  "(\<Sum>(t, p) \<leftarrow> zip (map f xs) (map g xs). h t p) = (\<Sum>x \<leftarrow> xs. h (f x) (g x))"
  by (induction xs) simp_all

lemma those_Some_map: "those xs = Some ys \<Longrightarrow> xs = map Some ys"
  by (induction xs arbitrary: ys) (auto split: option.splits)

lemma those_map_Some: "those (map Some ys) = Some ys"
  by (induction ys) simp_all

lemma evaluation_cell_scored:
  assumes "those (map r_ui predictions) = Some y_true" and "predictions \<noteq> []"
  shows "evaluation_cell predictions =
     Inr (classification
       (sqrt ((\<Sum>(t, p) \<leftarrow> zip y_true (map est predictions). (t - p)\<^sup>2) / real (length y_true)))
       ((\<Sum>(t, p) \<leftarrow> zip y_true (map est predictions). \<bar>t - p\<bar>) / real (length y_true))
       y_true (map est predictions))"
proof -
  from assms(1) have "map r_ui predictions = map Some y_true"
    by (rule those_Some_map)
  then have "length predictions = length y_true"
    by (metis length_map)
  with assms show ?thesis
    by (auto simp: evaluation_cell_def mean_squared_error_def mean_absolute_error_def Let_def)
qed

text \<open>
  The hybrid notebook's \<open>pred_df.dropna\<close> removes no test rating: the dataset was
  loaded without the rows that lack \<open>vote_average\<close>, and every movie of the test set is a
  movie of that dataset.
\<close>

lemma vote_avg_loaded:
  assumes "i \<in> movieId ` set (load_hybrid raw)"
  shows "\<exists>v. vote_avg (load_hybrid raw) i = Some (Some v)"
proof -
  let ?df = "load_hybrid raw"
  let ?kvs = "map (\<lambda>r. (movieId r, vote_average r)) (drop_duplicates movieId ?df)"
  have "fst ` set ?kvs = movieId ` set (drop_duplicates movieId ?df)"
    by (simp add: image_image)
  also have "\<dots> = movieId ` set ?df"
    using drop_duplicates_acc_keys [of movieId "[]" ?df] by (simp add: drop_duplicates_def)
  finally have "map_of ?kvs i \<noteq> None"
    using assms by (simp add: map_of_eq_None_iff)
  then obtain x where x: "map_of ?kvs i = Some x" by blast
  then have "(i, x) \<in> set ?kvs" by (rule map_of_SomeD)
  then obtain r where "r \<in> set (drop_duplicates movieId ?df)" and "x = vote_average r"
    by auto
  then have "r \<in> set ?df" and "x = vote_average r"
    using set_drop_duplicates by fastforce+
  then have "x \<noteq> None"
    by (simp add: load_hybrid_def)
  with x show ?thesis
    by (auto simp: vote_avg_def)
qed

lemma hybrid_rows_keep_all:
  assumes "list_all (\<lambda>(u, i, r). i \<in> movieId ` set (load_hybrid raw)) testset"
  shows "map (\<lambda>h. (h_userId h, h_movieId h, h_actual h)) (hybrid_rows (load_hybrid raw) model testset)
           = testset"
  using assms
proof (induction testset)
  case Nil
  show ?case
    by (simp add: hybrid_rows_def dropna_hybrid_def pred_df_def test_def List.map_filter_def)
next
  case (Cons t testset)
  obtain u i r where t: "t = (u, i, r)" by (cases t)
  with Cons.prems obtain v where "vote_avg (load_hybrid raw) i = Some (Some v)"
    using vote_avg_loaded by fastforce
  with Cons t show ?case
    by (simp add: hybrid_rows_def dropna_hybrid_def pred_df_def test_def List.map_filter_def)
qed

lemma hybrid_evaluation_cell_all_test_ratings:
  assumes "list_all (\<lambda>(u, i, r). i \<in> movieId ` set (load_hybrid raw)) testset"
    and "testset \<noteq> []"
  shows "\<exists>m. hybrid_evaluation_cell (load_hybrid raw) model testset = Inr m
     \<and> length (hybrid_rows (load_hybrid raw) model testset) = length testset"
proof -
  let ?rows = "hybrid_rows (load_hybrid raw) model testset"
  have "length (map (\<lambda>h. (h_userId h, h_movieId h, h_actual h)) ?rows) = length testset"
    by (simp only: hybrid_rows_keep_all [OF assms(1)])
  then have len: "length ?rows = length testset"
    by simp
  with assms(2) have "?rows \<noteq> []"
    by auto
  with len show ?thesis
    by (simp add: hybrid_evaluation_cell_def mean_squared_error_def mean_absolute_error_def Let_def)
qed

lemma evaluation_cell_all_test_ratings:
  assumes "testset \<noteq> []"
  shows "\<exists>m. evaluation_cell (test model testset) = Inr m
     \<and> rmse m = sqrt ((\<Sum>(u, i, r) \<leftarrow> testset. (model u i - r)\<^sup>2) / real (length testset))
     \<and> mae m = (\<Sum>(u, i, r) \<leftarrow> testset. \<bar>model u i - r\<bar>) / real (length testset)"
proof -
  let ?yt = "map (\<lambda>(u, i, r). r) testset"
  let ?yp = "map (\<lambda>(u, i, r). model u i) testset"
  from assms have ne: "test model testset \<noteq> []"
    by (simp add: test_def)
  have sq: "(\<Sum>(t, p) \<leftarrow> zip ?yt ?yp. (t - p)\<^sup>2) = (\<Sum>(u, i, r) \<leftarrow> testset. (model u i - r)\<^sup>2)"
    unfolding sum_list_zip_map
    by (rule arg_cong [where f = sum_list]) (auto simp: power2_commute)
  have ab: "(\<Sum>(t, p) \<leftarrow> zip ?yt ?yp. \<bar>t - p\<bar>) = (\<Sum>(u, i, r) \<leftarrow> testset. \<bar>model u i - r\<bar>)"
    unfolding sum_list_zip_map
    by (rule arg_cong [where f = sum_list]) (auto simp: abs_minus_commute)
  from evaluation_cell_scored [OF those_r_ui_test ne] sq ab
  show ?thesis
    by (simp add: map_est_test classification_def Let_def)
qed

lemma vote_avg_total:
  assumes "list_all (\<lambda>(u, i, r). i \<in> movieId ` set (load_hybrid raw)) testset"
  shows "\<exists>va. list_all (\<lambda>(u, i, r). vote_avg (load_hybrid raw) i = Some (Some (va i))) testset"
proof -
  let ?va = "\<lambda>i. case vote_avg (load_hybrid raw) i of Some (Some v) \<Rightarrow> v | _ \<Rightarrow> 0"
  have "vote_avg (load_hybrid raw) i = Some (Some (?va i))"
    if "i \<in> movieId ` set (load_hybrid raw)" for i
    using vote_avg_loaded [OF that] by auto
  with assms have "list_all (\<lambda>(u, i, r). vote_avg (load_hybrid raw) i = Some (Some (?va i))) testset"
    by (auto simp: list_all_iff)
  then show ?thesis by (rule exI [of _ "?va"])
qed

lemma hybrid_rows_all:
  assumes "list_all (\<lambda>(u, i, r). vote_avg df i = Some (Some (va i))) testset"
  shows "hybrid_rows df model testset =
     map (\<lambda>(u, i, r). \<lparr>h_userId = u, h_movieId = i, h_actual = r, h_svd_pred = model u i,
                        h_vote_average = va i, hybrid_pred = (model u i + va i) / 2\<rparr>) testset"
  using assms
  by (induction testset)
     (auto simp: hybrid_rows_def dropna_hybrid_def pred_df_def test_def List.map_filter_def)

lemma hybrid_evaluation_cell_metrics:
  assumes "list_all (\<lambda>(u, i, r). vote_avg df i = Some (Some (va i))) testset"
    and "testset \<noteq> []"
  shows "\<exists>m. hybrid_evaluation_cell df model testset = Inr m
     \<and> rmse m = sqrt ((\<Sum>(u, i, r) \<leftarrow> testset. ((model u i + va i) / 2 - r)\<^sup>2) / real (length testset))
     \<and> mae m = (\<Sum>(u, i, r) \<leftarrow> testset. \<bar>(model u i + va i) / 2 - r\<bar>) / real (length testset)"
proof -
  let ?yt = "map (\<lambda>(u, i, r). r) testset"
  let ?yp = "map (\<lambda>(u, i, r). (model u i + va i) / 2) testset"
  have yt: "map h_actual (hybrid_rows df model testset) = ?yt"
    and yp: "map hybrid_pred (hybrid_rows df model testset) = ?yp"
    by (simp_all add: hybrid_rows_all [OF assms(1)] case_prod_unfold)
  have sq: "(\<Sum>(t, p) \<leftarrow> zip ?yt ?yp. (t - p)\<^sup>2) =
      (\<Sum>(u, i, r) \<leftarrow> testset. ((model u i + va i) / 2 - r)\<^sup>2)"
    unfolding sum_list_zip_map
    by (rule arg_cong [where f = sum_list]) (auto simp: power2_commute)
  have ab: "(\<Sum>(t, p) \<leftarrow> zip ?yt ?yp. \<bar>t - p\<bar>) =
      (\<Sum>(u, i, r) \<leftarrow> testset. \<bar>(model u i + va i) / 2 - r\<bar>)"
    unfolding sum_list_zip_map
    by (rule arg_cong [where f = sum_list]) (auto simp: abs_minus_commute)
  from assms(2) sq ab show ?thesis
    unfolding hybrid_evaluation_cell_def Let_def yt yp
    by (simp add: mean_squared_error_def mean_absolute_error_def classification_def Let_def)
qed

text \<open>
  C7. On a non-empty test set the evaluation cell of the collaborative notebook returns
  metrics (it does not raise), with \<open>rmse\<close> the square root of the mean squared
  difference and \<open>mae\<close> the mean absolute difference between the model's estimate and the
  true rating, the sums and the mean taken over every rating of the test set. \<open>model\<close> is
  any estimate, so a rating whose user or item the model does not know is scored by
  whatever the model answers for it. The hybrid notebook scores the hybrid prediction
  \<open>(svd_pred + vote_average) / 2\<close> in the same way, and its \<open>pred_df.dropna\<close> excludes no
  test rating: when every movie of the test set is a movie of the loaded dataset (the
  test set is drawn from it), every test rating has a \<open>vote_average\<close> \<open>va i\<close>, one row is
  kept per test rating, and \<open>rmse\<close> and \<open>mae\<close> are again taken over every rating of the
  test set.
\<close>

theorem regression_metrics_all_test_ratings:
  assumes "testset \<noteq> []"
  shows "(\<exists>m. evaluation_cell (test model testset) = Inr m
       \<and> rmse m = sqrt ((\<Sum>(u, i, r) \<leftarrow> testset. (model u i - r)\<^sup>2) / real (length testset))
       \<and> mae m = (\<Sum>(u, i, r) \<leftarrow> testset. \<bar>model u i - r\<bar>) / real (length testset))
     \<and> (list_all (\<lambda>(u, i, r). i \<in> movieId ` set (load_hybrid raw)) testset \<longrightarrow>
          (\<exists>va. list_all (\<lambda>(u, i, r). vote_avg (load_hybrid raw) i = Some (Some (va i))) testset
             \<and> map (\<lambda>h. (h_userId h, h_movieId h, h_actual h))
                   (hybrid_rows (load_hybrid raw) model testset) = testset
             \<and> (\<exists>m. hybrid_evaluation_cell (load_hybrid raw) model testset = Inr m
                  \<and> rmse m = sqrt ((\<Sum>(u, i, r) \<leftarrow> testset. ((model u i + va i) / 2 - r)\<^sup>2)
                                    / real (length testset))
                  \<and> mae m = (\<Sum>(u, i, r) \<leftarrow> testset. \<bar>(model u i + va i) / 2 - r\<bar>)
                              / real (length testset))))"
proof (intro conjI impI)
  show "\<exists>m. evaluation_cell (test model testset) = Inr m
       \<and> rmse m = sqrt ((\<Sum>(u, i, r) \<leftarrow> testset. (model u i - r)\<^sup>2) / real (length testset))
       \<and> mae m = (\<Sum>(u, i, r) \<leftarrow> testset. \<bar>model u i - r\<bar>) / real (length testset)"
    using assms by (rule evaluation_cell_all_test_ratings)
next
  assume cov: "list_all (\<lambda>(u, i, r). i \<in> movieId ` set (load_hybrid raw)) testset"
  then obtain va where
    va: "list_all (\<lambda>(u, i, r). vote_avg (load_hybrid raw) i = Some (Some (va i))) testset"
    using vote_avg_total by blast
  note keep = hybrid_rows_keep_all [OF cov, of model]
  note met = hybrid_evaluation_cell_metrics [OF va assms, of model]
  from va keep met
  show "\<exists>va. list_all (\<lambda>(u, i, r). vote_avg (load_hybrid raw) i = Some (Some (va i))) testset
             \<and> map (\<lambda>h. (h_userId h, h_movieId h, h_actual h))
                   (hybrid_rows (load_hybrid raw) model testset) = testset
             \<and> (\<exists>m. hybrid_evaluation_cell (load_hybrid raw) model testset = Inr m
                  \<and> rmse m = sqrt ((\<Sum>(u, i, r) \<leftarrow> testset. ((model u i + va i) / 2 - r)\<^sup>2)
                                    / real (length testset))
                  \<and> mae m = (\<Sum>(u, i, r) \<leftarrow> testset. \<bar>(model u i + va i) / 2 - r\<bar>)
                              / real (length testset))"
    by (intro exI [of _ va] conjI)
qed

theorem regression_metrics_all_test_ratings_witness:
  "[(1 :: int, 10 :: int, 4 :: real), (2, 20, 3)] \<noteq> []
   \<and> list_all (\<lambda>(u, i, r). i \<in> movieId ` set (load_hybrid 
      [\<lparr>userId = 1, movieId = 10, rating = 4, title = ''A'', genres = ''Drama'', vote_average = Some 7\<rparr>,
      \<lparr>userId = 2, movieId = 20, rating = 3, title = ''B'', genres = ''Comedy'', vote_average = Some 5\<rparr>,
      \<lparr>userId = 3, movieId = 30, rating = 5, title = ''C'', genres = ''Crime'', vote_average = None\<rparr>])) [(1 :: int, 10 :: int, 4 :: real), (2, 20, 3)]
   \<and> (\<exists>m. evaluation_cell (test (\<lambda>u i. 3) [(1 :: int, 10 :: int, 4 :: real), (2, 20, 3)]) = Inr m
        \<and> rmse m = sqrt (1 / 2) \<and> mae m = 1 / 2)
   \<and> (\<exists>m. hybrid_evaluation_cell (load_hybrid 
      [\<lparr>userId = 1, movieId = 10, rating = 4, title = ''A'', genres = ''Drama'', vote_average = Some 7\<rparr>,
      \<lparr>userId = 2, movieId = 20, rating = 3, title = ''B'', genres = ''Comedy'', vote_average = Some 5\<rparr>,
      \<lparr>userId = 3, movieId = 30, rating = 5, title = ''C'', genres = ''Crime'', vote_average = None\<rparr>]) (\<lambda>u i. 3) [(1 :: int, 10 :: int, 4 :: real), (2, 20, 3)] = Inr m
        \<and> rmse m = 1 \<and> mae m = 1)"
proof -
  have ne: "[(1 :: int, 10 :: int, 4 :: real), (2, 20, 3)] \<noteq> []"
    by simp
  have cov: "list_all (\<lambda>(u, i, r). i \<in> movieId ` set (load_hybrid 
      [\<lparr>userId = 1, movieId = 10, rating = 4, title = ''A'', genres = ''Drama'', vote_average = Some 7\<rparr>,
      \<lparr>userId = 2, movieId = 20, rating = 3, title = ''B'', genres = ''Comedy'', vote_average = Some 5\<rparr>,
      \<lparr>userId = 3, movieId = 30, rating = 5, title = ''C'', genres = ''Crime'', vote_average = None\<rparr>])) [(1 :: int, 10 :: int, 4 :: real), (2, 20, 3)]"
    by (simp add: load_hybrid_def)
  note inst = regression_metrics_all_test_ratings [OF ne, of "\<lambda>u i. 3" "
      [\<lparr>userId = 1, movieId = 10, rating = 4, title = ''A'', genres = ''Drama'', vote_average = Some 7\<rparr>,
      \<lparr>userId = 2, movieId = 20, rating = 3, title = ''B'', genres = ''Comedy'', vote_average = Some 5\<rparr>,
      \<lparr>userId = 3, movieId = 30, rating = 5, title = ''C'', genres = ''Crime'', vote_average = None\<rparr>]"]
  from inst have coll: "\<exists>m. evaluation_cell (test (\<lambda>u i. 3) [(1 :: int, 10 :: int, 4 :: real), (2, 20, 3)]) = Inr m
        \<and> rmse m = sqrt (1 / 2) \<and> mae m = 1 / 2"
    by (auto simp: power2_eq_square)
  from inst cov obtain va m where
    va: "list_all (\<lambda>(u, i, r). vote_avg (load_hybrid 
      [\<lparr>userId = 1, movieId = 10, rating = 4, title = ''A'', genres = ''Drama'', vote_average = Some 7\<rparr>,
      \<lparr>userId = 2, movieId = 20, rating = 3, title = ''B'', genres = ''Comedy'', vote_average = Some 5\<rparr>,
      \<lparr>userId = 3, movieId = 30, rating = 5, title = ''C'', genres = ''Crime'', vote_average = None\<rparr>]) i = Some (Some (va i))) [(1 :: int, 10 :: int, 4 :: real), (2, 20, 3)]"
    and m: "hybrid_evaluation_cell (load_hybrid 
      [\<lparr>userId = 1, movieId = 10, rating = 4, title = ''A'', genres = ''Drama'', vote_average = Some 7\<rparr>,
      \<lparr>userId = 2, movieId = 20, rating = 3, title = ''B'', genres = ''Comedy'', vote_average = Some 5\<rparr>,
      \<lparr>userId = 3, movieId = 30, rating = 5, title = ''C'', genres = ''Crime'', vote_average = None\<rparr>]) (\<lambda>u i. 3) [(1 :: int, 10 :: int, 4 :: real), (2, 20, 3)] = Inr m"
      "rmse m = sqrt ((\<Sum>(u, i, r) \<leftarrow> [(1 :: int, 10 :: int, 4 :: real), (2, 20, 3)]. ((3 + va i) / 2 - r)\<^sup>2) / real (length [(1 :: int, 10 :: int, 4 :: real), (2, 20, 3)]))"
      "mae m = (\<Sum>(u, i, r) \<leftarrow> [(1 :: int, 10 :: int, 4 :: real), (2, 20, 3)]. \<bar>(3 + va i) / 2 - r\<bar>) / real (length [(1 :: int, 10 :: int, 4 :: real), (2, 20, 3)])"
    by blast
  from va have "va 10 = 7" and "va 20 = 5"
    by (simp_all add: vote_avg_def load_hybrid_def drop_duplicates_def)
  with m have "rmse m = 1" and "mae m = 1"
    by (simp_all add: power2_eq_square)
  with m(1) coll ne cov show ?thesis
    by blast
qed

section \<open>Properties of the classification metrics\<close>

lemma binarize_below:
  "list_all (\<lambda>r. r < threshold) ys \<Longrightarrow> binarize threshold ys = replicate (length ys) 0"
  by (induction ys) (simp_all add: binarize_def)

lemma no_predicted_positives:
  assumes "list_all (\<lambda>r. r < threshold) y_pred"
  shows "true_positives y_true_bin (binarize threshold y_pred) = 0"
    and "false_positives y_true_bin (binarize threshold y_pred) = 0"
  using assms
  by (auto simp: true_positives_def false_positives_def binarize_below filter_empty_conv
           dest!: set_zip_rightD)

lemma no_actual_positives:
  assumes "list_all (\<lambda>r. r < threshold) y_true"
  shows "true_positives (binarize threshold y_true) y_pred_bin = 0"
    and "false_negatives (binarize threshold y_true) y_pred_bin = 0"
  using assms
  by (auto simp: true_positives_def false_negatives_def binarize_below filter_empty_conv
           dest!: set_zip_leftD)

text \<open>
  C6. Whenever the test set is non-empty and every prediction has a true rating, the
  evaluation cell returns its metrics; when no prediction reaches the threshold 3.5
  (no predicted positives) precision and F1 are 0, and when no true rating reaches it
  (no actual positives) recall and F1 are 0. The outcome is a value of a function of
  the predictions, hence the same on every run.
\<close>

theorem classification_zero_denominators:
  assumes "those (map r_ui predictions) = Some y_true" and "predictions \<noteq> []"
  shows "\<exists>m. evaluation_cell predictions = Inr m
     \<and> (list_all (\<lambda>p. est p < 7 / 2) predictions \<longrightarrow> precision_val m = 0 \<and> f1_val m = 0)
     \<and> (list_all (\<lambda>r. r < 7 / 2) y_true \<longrightarrow> recall_val m = 0 \<and> f1_val m = 0)"
proof -
  let ?yp = "map est predictions"
  let ?tb = "binarize (7 / 2) y_true"
  let ?pb = "binarize (7 / 2) ?yp"
  have pred: "precision_score ?tb ?pb = 0 \<and> f1_score ?tb ?pb = 0"
    if "list_all (\<lambda>p. est p < 7 / 2) predictions"
  proof -
    from that have "list_all (\<lambda>r. r < 7 / 2) ?yp"
      by (simp add: list_all_iff)
    then have "true_positives ?tb ?pb = 0" and "false_positives ?tb ?pb = 0"
      by (rule no_predicted_positives)+
    then have "precision_score ?tb ?pb = 0"
      by (simp add: precision_score_def)
    then show ?thesis
      by (simp add: f1_score_def Let_def)
  qed
  have act: "recall_score ?tb ?pb = 0 \<and> f1_score ?tb ?pb = 0"
    if "list_all (\<lambda>r. r < 7 / 2) y_true"
  proof -
    from that have "true_positives ?tb ?pb = 0" and "false_negatives ?tb ?pb = 0"
      by (rule no_actual_positives)+
    then have "recall_score ?tb ?pb = 0"
      by (simp add: recall_score_def)
    then show ?thesis
      by (simp add: f1_score_def Let_def)
  qed
  from evaluation_cell_scored [OF assms] pred act show ?thesis
    by (simp add: classification_def Let_def)
qed

lemmas evaluation_defs =
  evaluation_cell_def mean_squared_error_def mean_absolute_error_def classification_def
  binarize_def accuracy_score_def precision_score_def recall_score_def f1_score_def
  true_positives_def false_positives_def false_negatives_def

theorem classification_zero_denominators_witness:
  "those (map r_ui [\<lparr>uid = 1, iid = 1, r_ui = Some 3, est = 3\<rparr>,
        \<lparr>uid = 1, iid = 2, r_ui = Some 2, est = 5 / 2\<rparr>]) = Some [3, 2]
   \<and> list_all (\<lambda>p. est p < 7 / 2) [\<lparr>uid = 1, iid = 1, r_ui = Some 3, est = 3\<rparr>,
        \<lparr>uid = 1, iid = 2, r_ui = Some 2, est = 5 / 2\<rparr>]
   \<and> list_all (\<lambda>r. r < 7 / 2) [3, 2 :: real]
   \<and> (\<exists>m. evaluation_cell [\<lparr>uid = 1, iid = 1, r_ui = Some 3, est = 3\<rparr>,
        \<lparr>uid = 1, iid = 2, r_ui = Some 2, est = 5 / 2\<rparr>] = Inr m
        \<and> precision_val m = 0 \<and> recall_val m = 0 \<and> f1_val m = 0)"
proof -
  have sc: "those (map r_ui [\<lparr>uid = 1, iid = 1, r_ui = Some 3, est = 3\<rparr>,
        \<lparr>uid = 1, iid = 2, r_ui = Some 2, est = 5 / 2\<rparr>]) = Some [3, 2]"
    by simp
  have ne: "[\<lparr>uid = 1, iid = 1, r_ui = Some 3, est = 3\<rparr>,
        \<lparr>uid = 1, iid = 2, r_ui = Some 2, est = 5 / 2\<rparr>] \<noteq> []"
    by simp
  have lo: "list_all (\<lambda>p. est p < 7 / 2) [\<lparr>uid = 1, iid = 1, r_ui = Some 3, est = 3\<rparr>,
        \<lparr>uid = 1, iid = 2, r_ui = Some 2, est = 5 / 2\<rparr>]"
    by simp
  have lt: "list_all (\<lambda>r. r < 7 / 2) [3, 2 :: real]"
    by simp
  from classification_zero_denominators [OF sc ne] sc lo lt show ?thesis
    by blast
qed

lemma zip_binarize:
  "zip (binarize t xs) (binarize t ys) =
     map (\<lambda>(x, y). (if t \<le> x then 1 else 0, if t \<le> y then 1 else 0)) (zip xs ys)"
  by (simp add: binarize_def zip_map_map)

lemma length_filter_map: "length (filter Q (map f zs)) = length (filter (\<lambda>z. Q (f z)) zs)"
  by (induction zs) simp_all

lemma confusion_counts:
  "true_positives (binarize t xs) (binarize t ys) =
     length (filter (\<lambda>(x, y). t \<le> x \<and> t \<le> y) (zip xs ys))"
  "false_positives (binarize t xs) (binarize t ys) =
     length (filter (\<lambda>(x, y). \<not> t \<le> x \<and> t \<le> y) (zip xs ys))"
  "false_negatives (binarize t xs) (binarize t ys) =
     length (filter (\<lambda>(x, y). t \<le> x \<and> \<not> t \<le> y) (zip xs ys))"
  "length (filter (\<lambda>(a, b). a = b) (zip (binarize t xs) (binarize t ys))) =
     length (filter (\<lambda>(x, y). (t \<le> x) = (t \<le> y)) (zip xs ys))"
  unfolding true_positives_def false_positives_def false_negatives_def zip_binarize
    length_filter_map
  by (rule arg_cong [where f = length], rule filter_cong [OF refl], simp split: prod.splits)+

lemma f1_harmonic:
  fixes tp fp fn :: nat
  defines "p \<equiv> (if tp + fp = 0 then 0 else real tp / real (tp + fp))"
    and "r \<equiv> (if tp + fn = 0 then 0 else real tp / real (tp + fn))"
  shows "(if p + r = 0 then 0 else 2 * p * r / (p + r)) =
         (if 2 * tp + fp + fn = 0 then 0 else real (2 * tp) / real (2 * tp + fp + fn))"
proof (cases "tp = 0")
  case True
  then show ?thesis by (simp add: p_def r_def)
next
  case False
  define A B C where "A = real tp" and "B = real fp" and "C = real fn"
  have A: "0 < A" and B: "0 \<le> B" and C: "0 \<le> C"
    using False by (simp_all add: A_def B_def C_def)
  have p: "p = A / (A + B)" and r: "r = A / (A + C)"
    using False by (simp_all add: p_def r_def A_def B_def C_def)
  have pA: "p * (A + B) = A" and rA: "r * (A + C) = A"
    using A B C by (simp_all add: p r)
  have "0 < p" and "0 < r"
    using A B C by (simp_all add: p r add_pos_nonneg)
  then have sum: "p + r \<noteq> 0" by simp
  have den: "2 * A + B + C \<noteq> 0"
    using A B C by simp
  have "2 * p * r * (2 * A + B + C) = 2 * r * (p * (A + B)) + 2 * p * (r * (A + C))"
    by (simp add: algebra_simps)
  also have "\<dots> = 2 * A * (p + r)"
    by (simp only: pA rA) (simp add: algebra_simps)
  finally have "2 * p * r / (p + r) = 2 * A / (2 * A + B + C)"
    using sum den by (simp add: frac_eq_eq)
  then show ?thesis
    using sum False by (simp add: A_def B_def C_def)
qed


lemma evaluation_cell_confusion_matrix:
  assumes "those (map r_ui predictions) = Some y_true" and "predictions \<noteq> []"
  shows "\<exists>m. evaluation_cell predictions = Inr m
     \<and> (let pairs = zip y_true (map est predictions);
             tp = length (filter (\<lambda>(r, e). 7 / 2 \<le> r \<and> 7 / 2 \<le> e) pairs);
             fp = length (filter (\<lambda>(r, e). \<not> 7 / 2 \<le> r \<and> 7 / 2 \<le> e) pairs);
             fn = length (filter (\<lambda>(r, e). 7 / 2 \<le> r \<and> \<not> 7 / 2 \<le> e) pairs);
             agree = length (filter (\<lambda>(r, e). (7 / 2 \<le> r) = (7 / 2 \<le> e)) pairs)
         in accuracy_val m = real agree / real (length predictions)
          \<and> precision_val m = (if tp + fp = 0 then 0 else real tp / real (tp + fp))
          \<and> recall_val m = (if tp + fn = 0 then 0 else real tp / real (tp + fn))
          \<and> f1_val m = (if 2 * tp + fp + fn = 0 then 0
                         else real (2 * tp) / real (2 * tp + fp + fn)))"
proof -
  let ?pairs = "zip y_true (map est predictions)"
  let ?tp = "length (filter (\<lambda>(r, e). 7 / 2 \<le> r \<and> 7 / 2 \<le> e) ?pairs)"
  let ?fp = "length (filter (\<lambda>(r, e). \<not> 7 / 2 \<le> r \<and> 7 / 2 \<le> e) ?pairs)"
  let ?fn = "length (filter (\<lambda>(r, e). 7 / 2 \<le> r \<and> \<not> 7 / 2 \<le> e) ?pairs)"
  let ?agree = "length (filter (\<lambda>(r, e). (7 / 2 \<le> r) = (7 / 2 \<le> e)) ?pairs)"
  let ?tb = "binarize (7 / 2) y_true"
  let ?pb = "binarize (7 / 2) (map est predictions)"
  from assms(1) have "map r_ui predictions = map Some y_true"
    by (rule those_Some_map)
  then have len: "length y_true = length predictions"
    by (metis length_map)
  have bin: "length ?tb = length predictions"
    by (simp add: binarize_def len)
  obtain m where cell: "evaluation_cell predictions = Inr m"
    and acc: "accuracy_val m = accuracy_score ?tb ?pb"
    and prec: "precision_val m = precision_score ?tb ?pb"
    and rec: "recall_val m = recall_score ?tb ?pb"
    and f1: "f1_val m = f1_score ?tb ?pb"
    using evaluation_cell_scored [OF assms] by (simp add: classification_def Let_def)
  have "accuracy_score ?tb ?pb = real ?agree / real (length predictions)"
    unfolding accuracy_score_def confusion_counts bin by (rule refl)
  moreover have "precision_score ?tb ?pb = (if ?tp + ?fp = 0 then 0 else real ?tp / real (?tp + ?fp))"
    unfolding precision_score_def confusion_counts Let_def by (rule refl)
  moreover have "recall_score ?tb ?pb = (if ?tp + ?fn = 0 then 0 else real ?tp / real (?tp + ?fn))"
    unfolding recall_score_def confusion_counts Let_def by (rule refl)
  moreover have "f1_score ?tb ?pb =
      (if 2 * ?tp + ?fp + ?fn = 0 then 0 else real (2 * ?tp) / real (2 * ?tp + ?fp + ?fn))"
    unfolding f1_score_def precision_score_def recall_score_def confusion_counts Let_def
    by (rule f1_harmonic)
  ultimately show ?thesis
    unfolding Let_def using cell acc prec rec f1
    by (intro exI [of _ m] conjI) (simp_all only:)
qed

text \<open>
  C8. The evaluation cell binarizes the true and the predicted ratings at 3.5 (a value
  of at least 3.5 is a 1, any other a 0) and returns the metrics of the confusion
  matrix: accuracy is the share of predictions on which the two labels agree,
  precision is \<open>tp / (tp + fp)\<close>, recall is \<open>tp / (tp + fn)\<close> and F1 is
  \<open>2 tp / (2 tp + fp + fn)\<close> (each 0 on a zero denominator). On the test set of the
  spec, true ratings 5.0 and 2.0 with predictions 4.0 and 4.5, the labels are [1, 0] and
  [1, 1] and the cell returns accuracy 1/2, precision 1/2, recall 1 and F1 2/3.
\<close>

theorem classification_metrics:
  "(\<forall>predictions y_true.
      those (map r_ui predictions) = Some y_true \<and> predictions \<noteq> [] \<longrightarrow>
      (\<exists>m. evaluation_cell predictions = Inr m
         \<and> (let pairs = zip y_true (map est predictions);
                 tp = length (filter (\<lambda>(r, e). 7 / 2 \<le> r \<and> 7 / 2 \<le> e) pairs);
                 fp = length (filter (\<lambda>(r, e). \<not> 7 / 2 \<le> r \<and> 7 / 2 \<le> e) pairs);
                 fn = length (filter (\<lambda>(r, e). 7 / 2 \<le> r \<and> \<not> 7 / 2 \<le> e) pairs);
                 agree = length (filter (\<lambda>(r, e). (7 / 2 \<le> r) = (7 / 2 \<le> e)) pairs)
             in accuracy_val m = real agree / real (length predictions)
              \<and> precision_val m = (if tp + fp = 0 then 0 else real tp / real (tp + fp))
              \<and> recall_val m = (if tp + fn = 0 then 0 else real tp / real (tp + fn))
              \<and> f1_val m = (if 2 * tp + fp + fn = 0 then 0
                             else real (2 * tp) / real (2 * tp + fp + fn)))))
   \<and> binarize (7 / 2) [5, 2] = [1, 0]
   \<and> binarize (7 / 2) [4, 9 / 2] = [1, 1]
   \<and> (\<exists>m. evaluation_cell [\<lparr>uid = 1, iid = 1, r_ui = Some 5, est = 4\<rparr>,
        \<lparr>uid = 1, iid = 2, r_ui = Some 2, est = 9 / 2\<rparr>] = Inr m
        \<and> accuracy_val m = 1 / 2 \<and> precision_val m = 1 / 2 \<and> recall_val m = 1
        \<and> f1_val m = 2 / 3)"
proof -
  have toy: "\<exists>m. evaluation_cell [\<lparr>uid = 1, iid = 1, r_ui = Some 5, est = 4\<rparr>,
        \<lparr>uid = 1, iid = 2, r_ui = Some 2, est = 9 / 2\<rparr>] = Inr m
        \<and> accuracy_val m = 1 / 2 \<and> precision_val m = 1 / 2 \<and> recall_val m = 1
        \<and> f1_val m = 2 / 3"
    by (simp add: evaluation_defs)
  have bins: "binarize (7 / 2) [5, 2] = [1, 0]" "binarize (7 / 2) [4, 9 / 2] = [1, 1]"
    by (simp_all add: binarize_def)
  have gen: "\<forall>predictions y_true.
      those (map r_ui predictions) = Some y_true \<and> predictions \<noteq> [] \<longrightarrow>
      (\<exists>m. evaluation_cell predictions = Inr m
         \<and> (let pairs = zip y_true (map est predictions);
                 tp = length (filter (\<lambda>(r, e). 7 / 2 \<le> r \<and> 7 / 2 \<le> e) pairs);
                 fp = length (filter (\<lambda>(r, e). \<not> 7 / 2 \<le> r \<and> 7 / 2 \<le> e) pairs);
                 fn = length (filter (\<lambda>(r, e). 7 / 2 \<le> r \<and> \<not> 7 / 2 \<le> e) pairs);
                 agree = length (filter (\<lambda>(r, e). (7 / 2 \<le> r) = (7 / 2 \<le> e)) pairs)
             in accuracy_val m = real agree / real (length predictions)
              \<and> precision_val m = (if tp + fp = 0 then 0 else real tp / real (tp + fp))
              \<and> recall_val m = (if tp + fn = 0 then 0 else real tp / real (tp + fn))
              \<and> f1_val m = (if 2 * tp + fp + fn = 0 then 0
                             else real (2 * tp) / real (2 * tp + fp + fn))))"
    by (intro allI impI, elim conjE) (rule evaluation_cell_confusion_matrix)
  from gen bins toy show ?thesis
    by (intro conjI)
qed

theorem classification_metrics_witness:
  "those (map r_ui [\<lparr>uid = 1, iid = 1, r_ui = Some 4, est = 4\<rparr>,
        \<lparr>uid = 1, iid = 2, r_ui = Some 5, est = 3\<rparr>,
        \<lparr>uid = 2, iid = 1, r_ui = Some 1, est = 2\<rparr>]) = Some [4, 5, 1]
   \<and> (\<exists>m. evaluation_cell [\<lparr>uid = 1, iid = 1, r_ui = Some 4, est = 4\<rparr>,
        \<lparr>uid = 1, iid = 2, r_ui = Some 5, est = 3\<rparr>,
        \<lparr>uid = 2, iid = 1, r_ui = Some 1, est = 2\<rparr>] = Inr m
        \<and> accuracy_val m = 2 / 3 \<and> precision_val m = 1 \<and> recall_val m = 1 / 2
        \<and> f1_val m = 2 / 3)"
proof -
  have sc: "those (map r_ui [\<lparr>uid = 1, iid = 1, r_ui = Some 4, est = 4\<rparr>,
        \<lparr>uid = 1, iid = 2, r_ui = Some 5, est = 3\<rparr>,
        \<lparr>uid = 2, iid = 1, r_ui = Some 1, est = 2\<rparr>]) = Some [4, 5, 1]"
    by simp
  have ne: "[\<lparr>uid = 1, iid = 1, r_ui = Some 4, est = 4\<rparr>,
        \<lparr>uid = 1, iid = 2, r_ui = Some 5, est = 3\<rparr>,
        \<lparr>uid = 2, iid = 1, r_ui = Some 1, est = 2\<rparr>] \<noteq> []"
    by simp
  note gen = classification_metrics [THEN conjunct1, rule_format, of "[\<lparr>uid = 1, iid = 1, r_ui = Some 4, est = 4\<rparr>,
        \<lparr>uid = 1, iid = 2, r_ui = Some 5, est = 3\<rparr>,
        \<lparr>uid = 2, iid = 1, r_ui = Some 1, est = 2\<rparr>]" "[4, 5, 1]"]
  from gen sc ne show ?thesis
    by (simp add: Let_def)
qed


section \<open>Properties of the prediction\<close>

lemma dot_zero_left: "dot (replicate k 0) ys = 0"
proof (induction k arbitrary: ys)
  case 0
  show ?case by (simp add: dot_def)
next
  case (Suc k)
  then show ?case by (cases ys) (simp_all add: dot_def)
qed

lemma dot_zero_right: "dot xs (replicate k 0) = 0"
proof (induction k arbitrary: xs)
  case 0
  show ?case by (simp add: dot_def)
next
  case (Suc k)
  then show ?case by (cases xs) (simp_all add: dot_def)
qed

lemma clip_bounds:
  assumes "lower \<le> upper"
  shows "lower \<le> clip (lower, upper) x" and "clip (lower, upper) x \<le> upper"
  using assms by (simp_all add: clip_def)

text \<open>
  C1. With the notebooks' rating scale (0.5, 5.0), every prediction lies in the closed
  interval [0.5, 5.0], and for a known user and a known item the prediction is
  \<open>mu + b_u[u] + b_i[i] + dot(P[u], Q[i])\<close> clipped to that interval.
\<close>

theorem lfm_predict_clipped:
  assumes "rating_scale m = notebook_scale"
  shows "1 / 2 \<le> lfm_predict m user item \<and> lfm_predict m user item \<le> 5
     \<and> (\<forall>a b. indexOf_user m user = Some a \<and> indexOf_item m item = Some b \<longrightarrow>
           lfm_predict m user item =
             max (1 / 2) (min 5 (mu m + b_u m ! a + b_i m ! b + dot (P_factors m ! a) (Q_factors m ! b))))"
proof -
  have "(1 / 2 :: real) \<le> 5" by simp
  then have "1 / 2 \<le> clip (1 / 2, 5) x" and "clip (1 / 2, 5) x \<le> 5" for x
    by (rule clip_bounds)+
  then have "1 / 2 \<le> lfm_predict m user item" and "lfm_predict m user item \<le> 5"
    using assms by (simp_all add: lfm_predict_def notebook_scale_def)
  moreover have "lfm_predict m user item =
      max (1 / 2) (min 5 (mu m + b_u m ! a + b_i m ! b + dot (P_factors m ! a) (Q_factors m ! b)))"
    if "indexOf_user m user = Some a" and "indexOf_item m item = Some b" for a b
    using that assms
    by (simp add: lfm_predict_def notebook_scale_def clip_def user_bias_def item_bias_def
          user_factors_def item_factors_def)
  ultimately show ?thesis by blast
qed

theorem lfm_predict_clipped_witness:
  "rating_scale 
     \<lparr>indexOf_user = [1 \<mapsto> 0], indexOf_item = [10 \<mapsto> 0, 20 \<mapsto> 1], mu = 7 / 2,
       b_u = [1 / 2], b_i = [1, - 4], P_factors = [[1, 2]], Q_factors = [[1, 1], [0, 1]],
       k_dim = 2, rating_scale = notebook_scale\<rparr> = notebook_scale
   \<and> indexOf_user 
     \<lparr>indexOf_user = [1 \<mapsto> 0], indexOf_item = [10 \<mapsto> 0, 20 \<mapsto> 1], mu = 7 / 2,
       b_u = [1 / 2], b_i = [1, - 4], P_factors = [[1, 2]], Q_factors = [[1, 1], [0, 1]],
       k_dim = 2, rating_scale = notebook_scale\<rparr> 1 = Some 0 \<and> indexOf_item 
     \<lparr>indexOf_user = [1 \<mapsto> 0], indexOf_item = [10 \<mapsto> 0, 20 \<mapsto> 1], mu = 7 / 2,
       b_u = [1 / 2], b_i = [1, - 4], P_factors = [[1, 2]], Q_factors = [[1, 1], [0, 1]],
       k_dim = 2, rating_scale = notebook_scale\<rparr> 10 = Some 0
   \<and> lfm_predict 
     \<lparr>indexOf_user = [1 \<mapsto> 0], indexOf_item = [10 \<mapsto> 0, 20 \<mapsto> 1], mu = 7 / 2,
       b_u = [1 / 2], b_i = [1, - 4], P_factors = [[1, 2]], Q_factors = [[1, 1], [0, 1]],
       k_dim = 2, rating_scale = notebook_scale\<rparr> 1 10 = 5
   \<and> 1 / 2 \<le> lfm_predict 
     \<lparr>indexOf_user = [1 \<mapsto> 0], indexOf_item = [10 \<mapsto> 0, 20 \<mapsto> 1], mu = 7 / 2,
       b_u = [1 / 2], b_i = [1, - 4], P_factors = [[1, 2]], Q_factors = [[1, 1], [0, 1]],
       k_dim = 2, rating_scale = notebook_scale\<rparr> 1 10 \<and> lfm_predict 
     \<lparr>indexOf_user = [1 \<mapsto> 0], indexOf_item = [10 \<mapsto> 0, 20 \<mapsto> 1], mu = 7 / 2,
       b_u = [1 / 2], b_i = [1, - 4], P_factors = [[1, 2]], Q_factors = [[1, 1], [0, 1]],
       k_dim = 2, rating_scale = notebook_scale\<rparr> 1 10 \<le> 5"
proof -
  have sc: "rating_scale 
     \<lparr>indexOf_user = [1 \<mapsto> 0], indexOf_item = [10 \<mapsto> 0, 20 \<mapsto> 1], mu = 7 / 2,
       b_u = [1 / 2], b_i = [1, - 4], P_factors = [[1, 2]], Q_factors = [[1, 1], [0, 1]],
       k_dim = 2, rating_scale = notebook_scale\<rparr> = notebook_scale"
    by simp
  have val: "lfm_predict 
     \<lparr>indexOf_user = [1 \<mapsto> 0], indexOf_item = [10 \<mapsto> 0, 20 \<mapsto> 1], mu = 7 / 2,
       b_u = [1 / 2], b_i = [1, - 4], P_factors = [[1, 2]], Q_factors = [[1, 1], [0, 1]],
       k_dim = 2, rating_scale = notebook_scale\<rparr> 1 10 = 5"
    by (simp add: lfm_predict_def notebook_scale_def clip_def user_bias_def item_bias_def
          user_factors_def item_factors_def dot_def)
  from lfm_predict_clipped [OF sc, of 1 10] val show ?thesis
    by simp
qed

text \<open>
  C2. For an unknown user and a known item the prediction is \<open>mu + b_i[i]\<close>, clipped; for
  a known user and an unknown item it is \<open>mu + b_u[u]\<close>, clipped; when both are unknown it
  is \<open>mu\<close>, clipped. \<open>lfm_predict\<close> returns a number in every case: it has no error
  result.
\<close>

theorem lfm_predict_fallback:
  "(indexOf_user m user = None \<and> indexOf_item m item = Some b \<longrightarrow>
      lfm_predict m user item = clip (rating_scale m) (mu m + b_i m ! b))
   \<and> (indexOf_user m user = Some a \<and> indexOf_item m item = None \<longrightarrow>
      lfm_predict m user item = clip (rating_scale m) (mu m + b_u m ! a))
   \<and> (indexOf_user m user = None \<and> indexOf_item m item = None \<longrightarrow>
      lfm_predict m user item = clip (rating_scale m) (mu m))"
  by (simp add: lfm_predict_def user_bias_def item_bias_def user_factors_def item_factors_def
        dot_zero_left dot_zero_right)

theorem lfm_predict_fallback_witness:
  "indexOf_user 
     \<lparr>indexOf_user = [1 \<mapsto> 0], indexOf_item = [10 \<mapsto> 0, 20 \<mapsto> 1], mu = 7 / 2,
       b_u = [1 / 2], b_i = [1, - 4], P_factors = [[1, 2]], Q_factors = [[1, 1], [0, 1]],
       k_dim = 2, rating_scale = notebook_scale\<rparr> 9 = None \<and> indexOf_item 
     \<lparr>indexOf_user = [1 \<mapsto> 0], indexOf_item = [10 \<mapsto> 0, 20 \<mapsto> 1], mu = 7 / 2,
       b_u = [1 / 2], b_i = [1, - 4], P_factors = [[1, 2]], Q_factors = [[1, 1], [0, 1]],
       k_dim = 2, rating_scale = notebook_scale\<rparr> 20 = Some 1 \<and> indexOf_item 
     \<lparr>indexOf_user = [1 \<mapsto> 0], indexOf_item = [10 \<mapsto> 0, 20 \<mapsto> 1], mu = 7 / 2,
       b_u = [1 / 2], b_i = [1, - 4], P_factors = [[1, 2]], Q_factors = [[1, 1], [0, 1]],
       k_dim = 2, rating_scale = notebook_scale\<rparr> 99 = None
   \<and> indexOf_user 
     \<lparr>indexOf_user = [1 \<mapsto> 0], indexOf_item = [10 \<mapsto> 0, 20 \<mapsto> 1], mu = 7 / 2,
       b_u = [1 / 2], b_i = [1, - 4], P_factors = [[1, 2]], Q_factors = [[1, 1], [0, 1]],
       k_dim = 2, rating_scale = notebook_scale\<rparr> 1 = Some 0
   \<and> lfm_predict 
     \<lparr>indexOf_user = [1 \<mapsto> 0], indexOf_item = [10 \<mapsto> 0, 20 \<mapsto> 1], mu = 7 / 2,
       b_u = [1 / 2], b_i = [1, - 4], P_factors = [[1, 2]], Q_factors = [[1, 1], [0, 1]],
       k_dim = 2, rating_scale = notebook_scale\<rparr> 9 20 = clip notebook_scale (7 / 2 + - 4)
   \<and> lfm_predict 
     \<lparr>indexOf_user = [1 \<mapsto> 0], indexOf_item = [10 \<mapsto> 0, 20 \<mapsto> 1], mu = 7 / 2,
       b_u = [1 / 2], b_i = [1, - 4], P_factors = [[1, 2]], Q_factors = [[1, 1], [0, 1]],
       k_dim = 2, rating_scale = notebook_scale\<rparr> 9 20 = 1 / 2
   \<and> lfm_predict 
     \<lparr>indexOf_user = [1 \<mapsto> 0], indexOf_item = [10 \<mapsto> 0, 20 \<mapsto> 1], mu = 7 / 2,
       b_u = [1 / 2], b_i = [1, - 4], P_factors = [[1, 2]], Q_factors = [[1, 1], [0, 1]],
       k_dim = 2, rating_scale = notebook_scale\<rparr> 1 99 = 4
   \<and> lfm_predict 
     \<lparr>indexOf_user = [1 \<mapsto> 0], indexOf_item = [10 \<mapsto> 0, 20 \<mapsto> 1], mu = 7 / 2,
       b_u = [1 / 2], b_i = [1, - 4], P_factors = [[1, 2]], Q_factors = [[1, 1], [0, 1]],
       k_dim = 2, rating_scale = notebook_scale\<rparr> 9 99 = 7 / 2"
proof -
  note fb = lfm_predict_fallback [of "\<lparr>indexOf_user = [1 \<mapsto> 0], indexOf_item = [10 \<mapsto> 0, 20 \<mapsto> 1], mu = 7 / 2,
       b_u = [1 / 2], b_i = [1, - 4], P_factors = [[1, 2]], Q_factors = [[1, 1], [0, 1]],
       k_dim = 2, rating_scale = notebook_scale\<rparr>"]
  from fb [of 9 20 1 0] have "lfm_predict 
     \<lparr>indexOf_user = [1 \<mapsto> 0], indexOf_item = [10 \<mapsto> 0, 20 \<mapsto> 1], mu = 7 / 2,
       b_u = [1 / 2], b_i = [1, - 4], P_factors = [[1, 2]], Q_factors = [[1, 1], [0, 1]],
       k_dim = 2, rating_scale = notebook_scale\<rparr> 9 20 = clip notebook_scale (7 / 2 + - 4)"
    by simp
  moreover from fb [of 1 99 0 0] have "lfm_predict 
     \<lparr>indexOf_user = [1 \<mapsto> 0], indexOf_item = [10 \<mapsto> 0, 20 \<mapsto> 1], mu = 7 / 2,
       b_u = [1 / 2], b_i = [1, - 4], P_factors = [[1, 2]], Q_factors = [[1, 1], [0, 1]],
       k_dim = 2, rating_scale = notebook_scale\<rparr> 1 99 = 4"
    by (simp add: clip_def notebook_scale_def)
  moreover from fb [of 9 99 0 0] have "lfm_predict 
     \<lparr>indexOf_user = [1 \<mapsto> 0], indexOf_item = [10 \<mapsto> 0, 20 \<mapsto> 1], mu = 7 / 2,
       b_u = [1 / 2], b_i = [1, - 4], P_factors = [[1, 2]], Q_factors = [[1, 1], [0, 1]],
       k_dim = 2, rating_scale = notebook_scale\<rparr> 9 99 = 7 / 2"
    by (simp add: clip_def notebook_scale_def)
  ultimately show ?thesis
    by (simp add: clip_def notebook_scale_def)
qed

end
